theory Spec2Isabelle
  imports Main "HOL-Library.Multiset" "HOL-Library.Sublist"
begin

section \<open>The counter graph of \<open>module-7-stress-testing/studio/agent.py\<close>\<close>

text \<open>
  The script builds a graph of four nodes around one router: \<open>prepare_tasks\<close> fixes the
  number of tasks, \<open>spawn_router\<close> turns that number into a list of \<open>Send\<close> commands,
  every \<open>Send\<close> runs \<open>increment_node\<close>, the reducer \<open>operator.add\<close> of the field
  \<open>counter\<close> folds the contributions, \<open>collector_node\<close> is the barrier and
  \<open>result_node\<close> compares the counter with the expected total.
\<close>

subsection \<open>State\<close>

text \<open>
  \<open>CounterState\<close> is a \<open>TypedDict\<close>: a dictionary in which each of the three keys may be
  absent (the script itself invokes the graph on \<open>{}\<close>). A field is \<open>None\<close> when its key
  is absent. The dictionaries that the nodes return are partial states of the same shape.
\<close>

record CounterState =
  counter :: "int option"
  tasks_to_spawn :: "int option"
  message :: "string option"

definition empty_dict :: CounterState where
  "empty_dict = \<lparr>counter = None, tasks_to_spawn = None, message = None\<rparr>"

text \<open>The reducer annotated on \<open>counter\<close>: \<open>operator.add\<close> on Python's unbounded integers.\<close>

definition operator_add :: "int \<Rightarrow> int \<Rightarrow> int" where
  "operator_add a b = a + b"

text \<open>\<open>Send(node, arg)\<close>: run the named node on the given state.\<close>

datatype Send = Send string CounterState

fun send_node :: "Send \<Rightarrow> string" where
  "send_node (Send nd a) = nd"

fun send_arg :: "Send \<Rightarrow> CounterState" where
  "send_arg (Send nd a) = a"

text \<open>The only exception the functions of the script can raise: a subscript on a missing key.\<close>

datatype error = KeyError string

subsection \<open>Formatting integers\<close>

text \<open>
  The f-strings format integers in decimal, with a leading minus sign for negative values.
  Strings are sequences of bytes in UTF-8: the two emoji of the messages are three bytes each
  (U+2705 and U+274C).
\<close>

definition digit_char :: "nat \<Rightarrow> char" where
  "digit_char d = ''0123456789'' ! d"

function str_nat :: "nat \<Rightarrow> string" where
  "str_nat n = (if n < 10 then [digit_char n] else str_nat (n div 10) @ [digit_char (n mod 10)])"
  by pat_completeness auto
termination
  by (relation "measure (\<lambda>n. n)") auto

declare str_nat.simps [simp del]

definition str_int :: "int \<Rightarrow> string" where
  "str_int i = (if i < 0 then CHR ''-'' # str_nat (nat (- i)) else str_nat (nat i))"

definition check_mark :: string where
  "check_mark = [CHR 0xE2, CHR 0x9C, CHR 0x85]"

definition cross_mark :: string where
  "cross_mark = [CHR 0xE2, CHR 0x9D, CHR 0x8C]"

subsection \<open>Nodes and router\<close>

text \<open>
  A function that prints returns the printed lines together with its value. The value of a
  node is the dictionary it returns.
\<close>

definition prepare_tasks :: "CounterState \<Rightarrow> string list \<times> CounterState" where
  "prepare_tasks state = ([''Node: prepare_tasks''], empty_dict\<lparr>tasks_to_spawn := Some 10000\<rparr>)"

definition increment_node :: "CounterState \<Rightarrow> string list \<times> CounterState" where
  "increment_node state = ([], empty_dict\<lparr>counter := Some 1\<rparr>)"

definition collector_node :: "CounterState \<Rightarrow> string list \<times> CounterState" where
  "collector_node state = ([''Node: collector (all increments complete)''], empty_dict)"

definition result_node :: "CounterState \<Rightarrow> string list \<times> CounterState" where
  "result_node state =
     (let expected = 10000;
          got = (case counter state of None \<Rightarrow> 0 | Some c \<Rightarrow> c);
          out = [''Node: result (Expected='' @ str_int expected @ '', Got='' @ str_int got @ '')''];
          msg = (if got = expected
                 then check_mark @ '' Success! Counter reached '' @ str_int got @ '' as expected.''
                 else cross_mark @ '' Failure! Expected '' @ str_int expected @ '', but got ''
                        @ str_int got @ ''.'')
      in (out, empty_dict\<lparr>message := Some msg\<rparr>))"

text \<open>
  \<open>range(n)\<close> is empty for \<open>n \<le> 0\<close> and has \<open>n\<close> elements otherwise. The subscript
  \<open>state["tasks_to_spawn"]\<close> raises \<open>KeyError\<close> on a missing key, after the line is printed.
\<close>

definition spawn_router :: "CounterState \<Rightarrow> string list \<times> (error + Send list)" where
  "spawn_router state =
     ([''Routing... Spawning tasks.''],
      (case tasks_to_spawn state of
         None \<Rightarrow> Inl (KeyError ''tasks_to_spawn'')
       | Some n \<Rightarrow> Inr (replicate (nat n) (Send ''increment'' empty_dict))))"

subsection \<open>The graph: channels, reducer and supersteps\<close>

text \<open>
  The graph execution is the host library's, driven by the declarations of the script:
  \<^item> a dictionary returned by a node is merged into the state field by field: the field
    \<open>counter\<close> through its reducer \<open>operator.add\<close>, the two other fields by overwriting;
  \<^item> the \<open>counter\<close> starts at 0 by default for the \<open>operator.add\<close> reducer (the comment
    above \<open>initial_state\<close> in the script);
  \<^item> the conditional edge calls \<open>spawn_router\<close> after \<open>prepare_tasks\<close> has written its
    update, and every \<open>Send\<close> it returns runs the node registered as \<open>increment\<close>, that is
    \<open>increment_node\<close>, on the argument of the \<open>Send\<close>;
  \<^item> the edge from \<open>increment\<close> to \<open>collector\<close> fires once all spawned tasks are done,
    and only if a task ran: with an empty list of \<open>Send\<close>s nothing is scheduled after the
    router and the run ends with the state it has;
  \<^item> the order in which the contributions of the tasks reach the reducer is not fixed by
    the script: the run takes it as a parameter \<open>sched\<close>, a reordering of the task results.
\<close>

definition apply_update :: "CounterState \<Rightarrow> CounterState \<Rightarrow> CounterState" where
  "apply_update st upd =
     \<lparr>counter = (case counter upd of
                   None \<Rightarrow> counter st
                 | Some v \<Rightarrow> Some (operator_add (case counter st of None \<Rightarrow> 0 | Some c \<Rightarrow> c) v)),
      tasks_to_spawn = (case tasks_to_spawn upd of None \<Rightarrow> tasks_to_spawn st | Some n \<Rightarrow> Some n),
      message = (case message upd of None \<Rightarrow> message st | Some m \<Rightarrow> Some m)\<rparr>"

definition initial_channels :: CounterState where
  "initial_channels = \<lparr>counter = Some 0, tasks_to_spawn = None, message = None\<rparr>"

type_synonym task_result = "string list \<times> CounterState"

definition task_results :: "Send list \<Rightarrow> task_result list" where
  "task_results sends = map (\<lambda>s. increment_node (send_arg s)) sends"

definition contribution :: "task_result \<Rightarrow> int" where
  "contribution r = (case counter (snd r) of None \<Rightarrow> 0 | Some v \<Rightarrow> v)"

definition reduce_stage :: "CounterState \<Rightarrow> task_result list \<Rightarrow> CounterState" where
  "reduce_stage st results = foldl apply_update st (map snd results)"

text \<open>The run from the conditional edge onwards, on the state left by the previous node.\<close>

definition run_from ::
  "(task_result list \<Rightarrow> task_result list) \<Rightarrow> CounterState \<Rightarrow> string list \<times> (error + CounterState)"
where
  "run_from sched st =
     (case spawn_router st of
        (out1, Inl e) \<Rightarrow> (out1, Inl e)
      | (out1, Inr sends) \<Rightarrow>
          if sends = [] then (out1, Inr st)
          else
            (let results = sched (task_results sends);
                 st2 = reduce_stage st results;
                 (out3, upd3) = collector_node st2;
                 st3 = apply_update st2 upd3;
                 (out4, upd4) = result_node st3;
                 st4 = apply_update st3 upd4
             in (out1 @ concat (map fst results) @ out3 @ out4, Inr st4)))"

text \<open>\<open>graph.invoke(input)\<close>: the entry edge runs \<open>prepare_tasks\<close>, then the rest.\<close>

definition invoke ::
  "(task_result list \<Rightarrow> task_result list) \<Rightarrow> CounterState \<Rightarrow> string list \<times> (error + CounterState)"
where
  "invoke sched input =
     (let st0 = apply_update initial_channels input;
          (out0, upd0) = prepare_tasks st0;
          st1 = apply_update st0 upd0;
          (out, r) = run_from sched st1
      in (out0 @ out, r))"

text \<open>
  The final value is what the script reads at the end, \<open>final_state['counter']\<close>, a
  \<open>KeyError\<close> when the key is missing.
\<close>

definition final_value :: "string list \<times> (error + CounterState) \<Rightarrow> error + int" where
  "final_value r =
     (case snd r of
        Inl e \<Rightarrow> Inl e
      | Inr fs \<Rightarrow> (case counter fs of None \<Rightarrow> Inl (KeyError ''counter'') | Some c \<Rightarrow> Inr c))"

section \<open>Properties of the nodes\<close>

text \<open>
  C7: each spawned work unit is pure and stateless. For every input state
  \<open>increment_node\<close> returns exactly the dictionary \<open>{"counter": 1}\<close> and prints nothing, so
  its output is the same for any two states.
\<close>

theorem increment_node_constant:
  "increment_node state = ([], \<lparr>counter = Some 1, tasks_to_spawn = None, message = None\<rparr>)
   \<and> increment_node state = increment_node state'"
  by (simp add: increment_node_def empty_dict_def)

end
